theory Spec2Isabelle
  imports Complex_Main
begin

section \<open>Python values, errors and numeric helpers\<close>

text \<open>
  The notebooks are Python. Exceptions are values of the type \<open>error\<close>; every definition
  below that can raise returns \<open>error + 'a\<close> with \<open>Inl\<close> for the exception. The
  constructors record where an exception comes from: a \<^verbatim>\<open>raise\<close> statement written
  in a notebook, the Python interpreter and its builtins, or the external quantum SDK.

  A Python float is a double: it is modelled by the rational number it denotes, and an
  operation on floats by the exact operation followed by \<open>round_double\<close>, the rounding to
  the nearest double. Infinities and NaN are not modelled.
\<close>

datatype error =
    NotebookValueError string
  | PyValueError
  | PyIndexError
  | PyKeyError
  | PlotValueError
  | PyNameError string
  | PyUnboundLocalError string
  | PySyntaxError
  | PyFileNotFoundError string
  | PyIsADirectoryError string
  | SdkError string

text \<open>\<^verbatim>\<open>int(c)\<close> for a single character: its decimal value, or a \<^verbatim>\<open>ValueError\<close>.\<close>

definition int_of_digit :: "char \<Rightarrow> int option" where
  "int_of_digit c = map_of (zip ''0123456789'' [0, 1, 2, 3, 4, 5, 6, 7, 8, 9]) c"

text \<open>\<^verbatim>\<open>2 ** e\<close> for Python ints: an int for \<open>e \<ge> 0\<close>, the float \<open>1 / 2 ** -e\<close> otherwise.\<close>

definition pow2 :: "int \<Rightarrow> rat" where
  "pow2 e = (if 0 \<le> e then 2 ^ nat e else 1 / 2 ^ nat (- e))"

text \<open>\<^verbatim>\<open>np.round\<close> rounds to the nearest integer, halves to the even neighbour.\<close>

definition np_round :: "rat \<Rightarrow> int" where
  "np_round x =
     (let f = \<lfloor>x\<rfloor>; d = x - of_int f
      in if d < 1 / 2 then f else if 1 / 2 < d then f + 1
         else if even f then f else f + 1)"

text \<open>
  Doubles have 53 significant binary digits. \<open>binade_down fuel x\<close> counts the doublings
  that bring a positive \<open>x\<close> below one up to at least one, \<open>binade_up fuel x\<close> the halvings that
  bring an \<open>x\<close> of at least two below two; \<open>ulp x\<close> is the distance between neighbouring
  doubles at \<open>x\<close>, which is \<open>2\<^sup>-\<^sup>1\<^sup>0\<^sup>7\<^sup>4\<close> in the subnormal range. Rounding is to the nearest
  double, ties to the one with an even last digit.
\<close>

fun binade_down :: "nat \<Rightarrow> rat \<Rightarrow> nat" where
  "binade_down 0 x = 0"
| "binade_down (Suc fuel) x = (if 1 \<le> x then 0 else Suc (binade_down fuel (2 * x)))"

fun binade_up :: "nat \<Rightarrow> rat \<Rightarrow> nat" where
  "binade_up 0 x = 0"
| "binade_up (Suc fuel) x = (if x < 2 then 0 else Suc (binade_up fuel (x / 2)))"

definition ulp :: "rat \<Rightarrow> rat" where
  "ulp x =
     (if 1 \<le> \<bar>x\<bar> then 2 ^ binade_up 1023 \<bar>x\<bar> / 2 ^ 52
      else 1 / 2 ^ (min (binade_down 1074 \<bar>x\<bar>) 1022 + 52))"

definition round_double :: "rat \<Rightarrow> rat" where
  "round_double x = (if x = 0 then 0 else of_int (np_round (x / ulp x)) * ulp x)"

definition fl_add :: "rat \<Rightarrow> rat \<Rightarrow> rat" where
  "fl_add x y = round_double (x + y)"

definition fl_mul :: "rat \<Rightarrow> rat \<Rightarrow> rat" where
  "fl_mul x y = round_double (x * y)"

text \<open>
  \<^verbatim>\<open>2 ** -k\<close> for a positive Python int \<open>k\<close> is the float \<open>2\<^sup>-\<^sup>k\<close>, which is zero from
  \<open>k = 1075\<close> on.
\<close>

definition pow2_float :: "nat \<Rightarrow> rat" where
  "pow2_float k = (if k \<le> 1074 then 1 / 2 ^ k else 0)"

text \<open>
  \<^verbatim>\<open>np.sum\<close> of a list of floats adds them in the order of numpy's pairwise summation: up
  to seven numbers one after the other; up to 128 numbers in eight running sums over
  every eighth number, which are added in pairs before the numbers left over are added
  one after the other; more than 128 numbers in two halves, the first a multiple of
  eight, each summed in the same way. The reduction starts from zero.
\<close>

definition seq_sum :: "rat \<Rightarrow> rat list \<Rightarrow> rat" where
  "seq_sum res a = foldl fl_add res a"

fun acc8 :: "rat list \<Rightarrow> rat list \<Rightarrow> rat list \<times> rat list" where
  "acc8 r a = (if 8 \<le> length a then acc8 (map2 fl_add r (take 8 a)) (drop 8 a) else (r, a))"

declare acc8.simps [simp del]

definition sum8 :: "rat list \<Rightarrow> rat" where
  "sum8 r =
     fl_add (fl_add (fl_add (r ! 0) (r ! 1)) (fl_add (r ! 2) (r ! 3)))
            (fl_add (fl_add (r ! 4) (r ! 5)) (fl_add (r ! 6) (r ! 7)))"

function pairwise_sum :: "rat list \<Rightarrow> rat" where
  "pairwise_sum a =
     (if length a < 8 then seq_sum 0 a
      else if length a \<le> 128
      then (case acc8 (take 8 a) (drop 8 a) of (r, rest) \<Rightarrow> seq_sum (sum8 r) rest)
      else (let n2 = length a div 2 - (length a div 2) mod 8
            in fl_add (pairwise_sum (take n2 a)) (pairwise_sum (drop n2 a))))"
  by pat_completeness auto
termination
  by (relation "measure length") auto

declare pairwise_sum.simps [simp del]

definition np_sum :: "rat list \<Rightarrow> rat" where
  "np_sum a = fl_add 0 (pairwise_sum a)"


section \<open>Bitstring utilities of the hardware phase-estimation notebook\<close>

text \<open>
  \<^verbatim>\<open>format(ind, "b")\<close>: the binary digits of a non-negative integer, most significant first.
\<close>

fun bin_digits :: "nat \<Rightarrow> string" where
  "bin_digits n =
     (if n < 2 then [if n = 0 then CHR ''0'' else CHR ''1'']
      else bin_digits (n div 2) @ [if n mod 2 = 0 then CHR ''0'' else CHR ''1''])"

declare bin_digits.simps [simp del]

text \<open>
  \<^verbatim>\<open>
  def to_bitstring(n_qubits: int, ind: str) -> int:
      return format(ind, "0{lp}b".format(lp=n_qubits))
  \<close>
  The format \<^verbatim>\<open>0<n>b\<close> pads with zeros up to a minimal width of \<open>n\<close> characters, a sign
  included; it never truncates.
\<close>

definition to_bitstring :: "nat \<Rightarrow> int \<Rightarrow> string" where
  "to_bitstring n_qubits ind =
     (if ind < 0
      then (let s = bin_digits (nat (- ind))
            in CHR ''-'' # replicate (n_qubits - 1 - length s) CHR ''0'' @ s)
      else (let s = bin_digits (nat ind)
            in replicate (n_qubits - length s) CHR ''0'' @ s))"

text \<open>
  \<^verbatim>\<open>
  def from_bitstring(n_qubits: int, bitstring: str) -> int:
      if isinstance(bitstring, str):
          ind = np.sum([2 ** (n_qubits - 1 - int(b)) for b in bitstring])
          return ind
      else:
          return bitstring
  \<close>
  The exponent uses the value \<^verbatim>\<open>int(b)\<close> of each character, not its position.
\<close>

datatype bitstring_arg = Str string | NotStr int

fun from_bitstring :: "nat \<Rightarrow> bitstring_arg \<Rightarrow> error + rat" where
  "from_bitstring n_qubits (Str bitstring) =
     (case those (map int_of_digit bitstring) of
        None \<Rightarrow> Inl PyValueError
      | Some ds \<Rightarrow> Inr (sum_list (map (\<lambda>b. pow2 (int n_qubits - 1 - b)) ds)))"
| "from_bitstring n_qubits (NotStr v) = Inr (of_int v)"

text \<open>
  \<^verbatim>\<open>
  def get_correct_bitstring(target_phase: float, r1: int) -> str:
      return to_bitstring(r1, int(np.round(target_phase * (2**r1))))
  \<close>
\<close>

definition get_correct_bitstring :: "rat \<Rightarrow> nat \<Rightarrow> string" where
  "get_correct_bitstring target_phase r1 = to_bitstring r1 (np_round (target_phase * 2 ^ r1))"

section \<open>Phase read off a counts dictionary\<close>

text \<open>
  A counts dictionary maps measured bitstrings to the number of times they were seen; it
  is an association list in insertion order. \<open>is_bitstring\<close> says that a key consists of
  the characters 0 and 1 only.
\<close>

type_synonym counts = "(string \<times> nat) list"


text \<open>
  \<^verbatim>\<open>Counts.most_frequent()\<close> belongs to the SDK. It raises on an empty object and when
  several outcomes share the maximal count, naming them in the message, and returns the
  single outcome with the maximal count otherwise.
\<close>

text \<open>\<^verbatim>\<open>",".join(ks)\<close>\<close>

fun comma_join :: "string list \<Rightarrow> string" where
  "comma_join [] = []"
| "comma_join [k] = k"
| "comma_join (k # ks) = k @ '','' @ comma_join ks"

definition top_outcomes :: "counts \<Rightarrow> string list" where
  "top_outcomes cs = map fst (filter (\<lambda>kc. snd kc = fold max (map snd cs) 0) cs)"

definition most_frequent :: "counts \<Rightarrow> error + string" where
  "most_frequent cs =
     (if cs = [] then Inl (SdkError ''Can not return a most frequent count on an empty object'')
      else (case top_outcomes cs of
              [k] \<Rightarrow> Inr k
            | ks \<Rightarrow> Inl (SdkError (''Multiple values have the same maximum counts: ''
                       @ comma_join ks))))"

text \<open>
  The expression shared by \<^verbatim>\<open>phase_from_counts\<close> and \<^verbatim>\<open>get_phase_from_qpe_circuit\<close>:
  \<^verbatim>\<open>np.sum([(int(v)) * 2 ** -(i + 1) for i, v in enumerate(bitstring)])\<close>
  Each term is the product of an int and a float, hence a float, and the sum is a sum of
  floats.
\<close>

definition bitstring_phase :: "string \<Rightarrow> error + rat" where
  "bitstring_phase bitstring =
     (case those (map int_of_digit bitstring) of
        None \<Rightarrow> Inl PyValueError
      | Some vs \<Rightarrow>
          Inr (np_sum (map (\<lambda>(i, v). fl_mul (of_int v) (pow2_float (i + 1))) (enumerate 0 vs))))"

text \<open>
  \<^verbatim>\<open>
  def phase_from_counts(counts: dict) -> float:
      counts = Counts(counts)
      bitstring = counts.most_frequent()
      fig = plot_histogram(counts)
      return (
          np.sum([(int(v)) * 2 ** -(i + 1) for i, v in enumerate(bitstring)]),
          bitstring,
          fig,
      )
  \<close>
  \<^verbatim>\<open>Counts\<close> keeps a dictionary keyed by bitstrings as it is. The histogram is drawn by the
  SDK; \<open>plot_histogram\<close> stands for it.
\<close>

definition phase_from_counts :: "(counts \<Rightarrow> 'fig) \<Rightarrow> counts \<Rightarrow> error + (rat \<times> string \<times> 'fig)" where
  "phase_from_counts plot_histogram cs =
     (case most_frequent cs of
        Inl e \<Rightarrow> Inl e
      | Inr bitstring \<Rightarrow>
          (let fig = plot_histogram cs
           in case bitstring_phase bitstring of
                Inl e \<Rightarrow> Inl e
              | Inr phase \<Rightarrow> Inr (phase, bitstring, fig)))"

section \<open>Circuits and matrices as the notebooks use them\<close>

text \<open>
  The circuit object belongs to the SDK. What the notebooks do with it is to create it
  from registers and to append gates to it, so a circuit is modelled by its registers and
  the list of the instructions appended so far, each a gate with the qubits it acts on.
  Qubits are numbered through the registers in order.

  Matrices are computed by numpy and scipy. They are kept symbolic: a matrix expression
  records which library operations produced a matrix, \<open>Random_Matrix k d\<close> being the
  \<open>k\<close>-th call of \<^verbatim>\<open>np.random.rand(d, d)\<close>.
\<close>

datatype mexpr =
    Random_Matrix nat nat
  | Plus mexpr mexpr
  | Times_i mexpr
  | Conj_Transpose mexpr
  | Times_int nat mexpr
  | Expm mexpr
  | Over_Trace mexpr

datatype eigenpair = Random_Eigenpair mexpr

datatype 's gate =
    H_gate
  | Controlled_Unitary mexpr
  | QFT_gate nat bool bool
  | Prepare_State 's
  | Circuit_gate "('s gate \<times> nat list) list"

type_synonym 's instruction = "'s gate \<times> nat list"

record qreg =
  reg_size :: nat
  reg_name :: string

record 's circuit =
  qregs :: "qreg list"
  data :: "'s instruction list"

definition QuantumRegister :: "nat \<Rightarrow> string \<Rightarrow> qreg" where
  "QuantumRegister n nm = \<lparr>reg_size = n, reg_name = nm\<rparr>"

text \<open>\<^verbatim>\<open>QuantumCircuit(reg, ...)\<close> and \<^verbatim>\<open>QuantumCircuit(n)\<close>: a circuit without instructions.\<close>

definition QuantumCircuit :: "qreg list \<Rightarrow> 's circuit" where
  "QuantumCircuit regs = \<lparr>qregs = regs, data = []\<rparr>"

definition QuantumCircuit_n :: "nat \<Rightarrow> 's circuit" where
  "QuantumCircuit_n n = QuantumCircuit [QuantumRegister n ''q'']"

definition num_qubits :: "'s circuit \<Rightarrow> nat" where
  "num_qubits circ = sum_list (map reg_size (qregs circ))"

text \<open>The qubits of the \<open>j\<close>-th register of a circuit.\<close>

definition register_qubits :: "'s circuit \<Rightarrow> nat \<Rightarrow> nat list" where
  "register_qubits circ j =
     (let start = sum_list (map reg_size (take j (qregs circ)))
      in [start ..< start + reg_size (qregs circ ! j)])"

text \<open>
  \<^verbatim>\<open>circ.append(gate, qargs)\<close> adds one instruction; \<^verbatim>\<open>circ.h(register)\<close> adds one Hadamard
  per qubit of the register, in the register's order.
\<close>

definition circuit_append :: "'s circuit \<Rightarrow> 's gate \<Rightarrow> nat list \<Rightarrow> 's circuit" where
  "circuit_append circ g qargs = circ\<lparr>data := data circ @ [(g, qargs)]\<rparr>"

definition circuit_h :: "'s circuit \<Rightarrow> nat list \<Rightarrow> 's circuit" where
  "circuit_h circ qs = circ\<lparr>data := data circ @ map (\<lambda>q. (H_gate, [q])) qs\<rparr>"

section \<open>The phase-estimation notebook\<close>

text \<open>
  \<^verbatim>\<open>
  def random_unitary_iter(r1:int,r2:int)->Iterable:
      rham = np.random.rand(2**r2,2**r2) + 1j*np.random.rand(2**r2,2**r2)
      rham += np.conj(np.transpose(rham))
      irham = 1j*rham
      for m in range(r1):
          rut=expm((2**m)*irham)
          rut/np.trace(rut)
          yield rut
  \<close>
  The generator is consumed to its end by its only caller, so it is the list of what it
  yields. The quotient \<^verbatim>\<open>rut/np.trace(rut)\<close> is computed and dropped: the statement
  assigns nothing, and \<open>rut\<close> is yielded as \<open>expm\<close> returned it.
\<close>

definition irham :: "nat \<Rightarrow> mexpr" where
  "irham r2 =
     (let rham = Plus (Random_Matrix 0 (2 ^ r2)) (Times_i (Random_Matrix 1 (2 ^ r2)));
          rham = Plus rham (Conj_Transpose rham)
      in Times_i rham)"

definition random_unitary_iter :: "nat \<Rightarrow> nat \<Rightarrow> mexpr list" where
  "random_unitary_iter r1 r2 =
     map (\<lambda>m. let rut = Expm (Times_int (2 ^ m) (irham r2));
                  dropped = Over_Trace rut
              in rut) [0..<r1]"

text \<open>
  \<^verbatim>\<open>
  def controlled_U_gate(circ:QuantumCircuit,ctrl:int,targs:list,rut:np.ndarray)->None:
      rut_gate=UnitaryGate(rut)
      crut_gate = rut_gate.control(1)
      circ.append(crut_gate,qargs=[ctrl,*targs])
  \<close>
\<close>

definition controlled_U_gate :: "'s circuit \<Rightarrow> nat \<Rightarrow> nat list \<Rightarrow> mexpr \<Rightarrow> 's circuit" where
  "controlled_U_gate circ ctrl targs rut = circuit_append circ (Controlled_Unitary rut) (ctrl # targs)"

text \<open>
  \<^verbatim>\<open>get_random_phase_and_psi(unitary)\<close> diagonalises the matrix and picks an eigenvalue's
  phase and its eigenvector at random.
\<close>

definition get_random_phase_and_psi :: "mexpr \<Rightarrow> eigenpair" where
  "get_random_phase_and_psi unitary = Random_Eigenpair unitary"

text \<open>
  \<^verbatim>\<open>
  def qpe_circuit(r1:int,r2:int)->Tuple[QuantumCircuit,float]:
      first_register=QuantumRegister(r1,"first")
      second_register=QuantumRegister(r2,"second")
      circ = QuantumCircuit(first_register,second_register)
      circ.h(first_register)
      unitaries = random_unitary_iter(r1,r2)
      get_phase_and_psi=True
      for ind,unitary in enumerate(unitaries):
          if get_phase_and_psi:
              phase,psi= get_random_phase_and_psi(unitary)
              get_phase_and_psi=False
          controlled_U_gate(circ=circ,ctrl=ind,targs=second_register,rut=unitary)
      circ.append(QFT(num_qubits=len(first_register),inverse=True,do_swaps=True),qargs=first_register)
      return circ,phase,psi
  \<close>
  The loop's state is the circuit, the flag and the pair \<open>phase, psi\<close>, which is unbound
  until the first iteration has run; returning it unbound is an \<^verbatim>\<open>UnboundLocalError\<close>.
\<close>

record 's qpe_state =
  circ :: "'s circuit"
  get_phase_and_psi :: bool
  phase_psi :: "eigenpair option"

fun qpe_loop :: "nat list \<Rightarrow> (nat \<times> mexpr) list \<Rightarrow> 's qpe_state \<Rightarrow> 's qpe_state" where
  "qpe_loop second_register [] st = st"
| "qpe_loop second_register ((ind, unitary) # rest) st =
     (let st1 = (if get_phase_and_psi st
                 then st\<lparr>phase_psi := Some (get_random_phase_and_psi unitary),
                         get_phase_and_psi := False\<rparr>
                 else st);
          st2 = st1\<lparr>circ := controlled_U_gate (circ st1) ind second_register unitary\<rparr>
      in qpe_loop second_register rest st2)"

definition qpe_circuit :: "nat \<Rightarrow> nat \<Rightarrow> error + ('s circuit \<times> eigenpair)" where
  "qpe_circuit r1 r2 =
     (let first_register = QuantumRegister r1 ''first'';
          second_register = QuantumRegister r2 ''second'';
          c0 = QuantumCircuit [first_register, second_register];
          c1 = circuit_h c0 (register_qubits c0 0);
          unitaries = random_unitary_iter r1 r2;
          st = qpe_loop (register_qubits c0 1) (enumerate 0 unitaries)
                 \<lparr>circ = c1, get_phase_and_psi = True, phase_psi = None\<rparr>;
          c2 = circuit_append (circ st) (QFT_gate (reg_size first_register) True True) (register_qubits c0 0)
      in case phase_psi st of
           None \<Rightarrow> Inl (PyUnboundLocalError ''phase'')
         | Some pp \<Rightarrow> Inr (c2, pp))"

section \<open>The Fourier-transform notebook\<close>

text \<open>
  \<^verbatim>\<open>
  def build_qft_circuit(n_qubits:int)->QuantumCircuit:
      # EXERCISE: write the QFT circuit!
      # TIP: use two for loops
      # TIP 2: don't forget the swaps!
      # TIP 3: depending on how you implement the circuit, you might need to apply a phase of (k+1) rather than k!
      circuit = QuantumCircuit(n_qubits)
      ...
      return circuit
  \<close>
  The body between creating and returning the circuit is the expression statement
  \<^verbatim>\<open>...\<close>, which does nothing.
\<close>

definition build_qft_circuit :: "nat \<Rightarrow> 's circuit" where
  "build_qft_circuit n_qubits = (let circuit = QuantumCircuit_n n_qubits in circuit)"

text \<open>
  The circuit that \<^verbatim>\<open>get_qft_coefficients\<close> hands to the simulator:
  \<^verbatim>\<open>
      circuit = QuantumCircuit(n_qubits)
      circuit.prepare_state(state=initial_state)
      qft_circuit = build_qft_circuit(n_qubits)
      circuit.append(qft_circuit,qargs=range(n_qubits))
  \<close>
\<close>

definition get_qft_coefficients_circuit :: "nat \<Rightarrow> 's \<Rightarrow> 's circuit" where
  "get_qft_coefficients_circuit n_qubits initial_state =
     (let circuit = QuantumCircuit_n n_qubits;
          circuit = circuit_append circuit (Prepare_State initial_state) (register_qubits circuit 0);
          qft_circuit = build_qft_circuit n_qubits
      in circuit_append circuit (Circuit_gate (data qft_circuit)) [0..<n_qubits])"

text \<open>
  What the specification says of the circuit, in its words: a Hadamard is applied to each
  qubit.
\<close>

definition spec_hadamard_on_each_qubit :: "'s circuit \<Rightarrow> bool" where
  "spec_hadamard_on_each_qubit c = list_all (\<lambda>q. (H_gate, [q]) \<in> set (data c)) [0..<num_qubits c]"

text \<open>
  The check cell prepares its input vector and divides it by its Euclidean norm:
  \<^verbatim>\<open>initial_state/=np.linalg.norm(initial_state)\<close>. Complex floats are idealised as
  complex numbers.
\<close>

definition linalg_norm :: "complex list \<Rightarrow> real" where
  "linalg_norm v = sqrt (sum_list (map (\<lambda>x. (cmod x)\<^sup>2) v))"

definition initial_state_div_norm :: "complex list \<Rightarrow> complex list" where
  "initial_state_div_norm initial_state =
     map (\<lambda>x. x / of_real (linalg_norm initial_state)) initial_state"

section \<open>The hardware cells\<close>

text \<open>
  The calls a hardware cell makes to the SDK's job interface, in order. A primitive's
  \<^verbatim>\<open>run\<close> submits a job to its backend, to the provider's queue for a real backend and to
  the local simulator otherwise; \<^verbatim>\<open>service.job(key)\<close> loads a job by identifier;
  \<^verbatim>\<open>job.result(timeout)\<close> blocks until the result of that job is there, for ever when no
  timeout is passed; \<^verbatim>\<open>job.cancel()\<close> is never written in a notebook. The calls are taken to
  succeed: an exception of the SDK would end the cell at that call.
\<close>

datatype backend = Real_Backend | Aer_Simulator

datatype job_value =
    Submitted_Job backend
  | Loaded_Job string
  | Estimator_Result backend
  | Loaded_Result string
  | Ellipsis

datatype job_call =
    Least_Busy
  | Run_Job backend
  | Load_Job string
  | Job_Result job_value "nat option"
  | Cancel_Job job_value



text \<open>
  The estimator helper of the notebook on connecting to the provider transpiles locally,
  submits one job and waits for its result:
  \<^verbatim>\<open>
      job = estimator.run([(isa_circuit, mapped_observables, param_sweep)],precision=np.sqrt(1/n_shots))
      result = job.result()[0]
      return result
  \<close>
\<close>

definition backend_estimate_observables :: "backend \<Rightarrow> job_call list \<times> job_value" where
  "backend_estimate_observables b =
     (let job = Submitted_Job b
      in ([Run_Job b, Job_Result job None], Estimator_Result b))"

text \<open>
  The dispatch of that notebook's hardware cell:
  \<^verbatim>\<open>
  if which == "run":
      real_result=backend_estimate_observables(real_backend,circuit,observables=observables,param_sweep=sparse_param_sweep,n_shots=n_shots)
  elif which == "load":
      job_key='crx14dshazpg0084b9xg'
      job = service.job(job_key)
      real_result = job.result()[0]
  \<close>
  There is no \<^verbatim>\<open>else\<close>. The statement after it reads \<open>real_result\<close>, which is unbound when
  neither branch ran.
\<close>

definition connect_hardware_dispatch :: "string \<Rightarrow> string \<Rightarrow> job_call list \<times> (error + job_value)" where
  "connect_hardware_dispatch which job_key =
     (if which = ''run''
      then (let (calls, real_result) = backend_estimate_observables Real_Backend
            in (calls, Inr real_result))
      else if which = ''load''
      then (let job = Loaded_Job job_key
            in ([Load_Job job_key, Job_Result job None], Inr (Loaded_Result job_key)))
      else ([], Inl (PyNameError ''real_result'')))"




text \<open>
  The hardware cell of that notebook:
  \<^verbatim>\<open>
  real_backend = service.least_busy(
      simulator=False, operational=True, min_num_qubits=r1 + r2
  )
  n_shots = ...
  which = ...
  if which == "run":
      real_job = ...
  elif which == "load":
      job_key = ...
      real_job = service.job(job_key)
  else:
      raise ValueError(f"Expected 'run' or 'load', got: {which}")
  real_counts = ...
  real_computed_phase, real_output_bitstring, real_fig = phase_from_counts(real_counts)
  print_info(target_phase, real_computed_phase, real_output_bitstring, correct_bitstring)
  real_fig.suptitle(f"Hardware run on {real_job._backend.name}")
  \<close>
  \<open>which\<close> and \<open>job_key\<close> are what the student writes for the placeholders. The right-hand
  sides of \<open>real_job\<close> in the first branch and of \<open>real_counts\<close> are placeholders as well:
  \<open>real_job_rhs\<close> stands for the calls and the value of the first, \<open>real_counts_rhs\<close> for
  the calls of the second, given the job. As shipped both are the value \<^verbatim>\<open>...\<close> and call
  nothing; the notebook asks to run the sampler with the correct backend and to get the
  counts, which is what the two helpers above do. The cell's value here is that of
  \<open>real_job\<close> once \<open>real_counts\<close> is bound; the statements after it call nothing of the job
  interface.
\<close>

definition qpe_hardware_dispatch_with :: "job_call list \<times> job_value \<Rightarrow> string \<Rightarrow> string
    \<Rightarrow> job_call list \<times> (error + job_value)" where
  "qpe_hardware_dispatch_with real_job_rhs which job_key =
     (let calls = [Least_Busy]
      in if which = ''run''
         then (calls @ fst real_job_rhs, Inr (snd real_job_rhs))
         else if which = ''load''
         then (calls @ [Load_Job job_key], Inr (Loaded_Job job_key))
         else (calls, Inl (NotebookValueError (''Expected 'run' or 'load', got: '' @ which))))"

definition qpe_hardware_dispatch :: "string \<Rightarrow> string \<Rightarrow> job_call list \<times> (error + job_value)" where
  "qpe_hardware_dispatch which job_key = qpe_hardware_dispatch_with ([], Ellipsis) which job_key"


text \<open>Whether a result is an exception raised by a \<^verbatim>\<open>raise\<close> statement of a notebook.\<close>

fun raised_by_notebook :: "error + 'a \<Rightarrow> bool" where
  "raised_by_notebook (Inl (NotebookValueError msg)) = True"
| "raised_by_notebook r = False"

section \<open>The bitstring counts along a parameter sweep\<close>









section \<open>Plotting an estimator result\<close>

text \<open>
  An estimator result carries the arrays \<open>evs\<close> and \<open>stds\<close>, one row per observable. The
  SDK builds both arrays with the same shape.
\<close>

record estimator_result =
  evs :: "real list list"
  stds :: "real list list"

definition same_shape :: "estimator_result \<Rightarrow> bool" where
  "same_shape result = (map length (evs result) = map length (stds result))"

text \<open>
  The plotting library checks the lengths of what it is given. \<^verbatim>\<open>ax.plot(x, y)\<close> raises a
  \<^verbatim>\<open>ValueError\<close> unless \<open>x\<close> and \<open>y\<close> have the same length; \<^verbatim>\<open>ax.errorbar(x, y, yerr)\<close> raises
  one unless \<open>x\<close> and \<open>y\<close> have the same length and \<open>yerr\<close> has that length or a single
  entry, which it repeats.
\<close>

datatype plot_call =
    Plot "real list" "real list"
  | Errorbar "real list" "real list" "real list"

definition ax_plot :: "real list \<Rightarrow> real list \<Rightarrow> error + plot_call" where
  "ax_plot x y = (if length x = length y then Inr (Plot x y) else Inl PlotValueError)"

definition ax_errorbar :: "real list \<Rightarrow> real list \<Rightarrow> real list \<Rightarrow> error + plot_call" where
  "ax_errorbar x y yerr =
     (if length x \<noteq> length y then Inl PlotValueError
      else if length yerr = length y \<or> length yerr = 1 then Inr (Errorbar x y yerr)
      else Inl PlotValueError)"

text \<open>
  A loop of plotting calls: the calls that were made, and the exception that ended the
  loop if one did.
\<close>

fun plot_each :: "('a \<Rightarrow> error + plot_call) \<Rightarrow> 'a list \<Rightarrow> plot_call list \<times> error option" where
  "plot_each draw [] = ([], None)"
| "plot_each draw (row # rows) =
     (case draw row of
        Inl e \<Rightarrow> ([], Some e)
      | Inr c \<Rightarrow> (case plot_each draw rows of (cs, e) \<Rightarrow> (c # cs, e)))"

text \<open>
  \<^verbatim>\<open>
  def plot_estimator_result(result, param_sweep, observables,overlay_param_sweep=None,overlay_result=None):
      fig, ax = plt.subplots()
      if overlay_result is not None and overlay_param_sweep is not None:
          for ov_evs in overlay_result.data.evs:
              ax.plot(overlay_param_sweep, ov_evs,color=".5",linewidth=.5)
      for evs,stds,obs in zip(result.data.evs,result.data.stds,observables):
          ax.errorbar(param_sweep, evs,stds, label=obs[0].paulis[0])
      ...
  \<close>
  The function compares no lengths itself. It is modelled by the plotting calls it makes
  and the exception of the plotting library that ends it, if any.
\<close>

definition plot_estimator_result :: "estimator_result \<Rightarrow> real list \<Rightarrow> 'o list
    \<Rightarrow> real list option \<Rightarrow> estimator_result option \<Rightarrow> plot_call list \<times> error option" where
  "plot_estimator_result result param_sweep observables overlay_param_sweep overlay_result =
     (case (case (overlay_result, overlay_param_sweep) of
              (Some ov_result, Some ov_sweep) \<Rightarrow> plot_each (ax_plot ov_sweep) (evs ov_result)
            | _ \<Rightarrow> ([], None)) of
        (cs, Some e) \<Rightarrow> (cs, Some e)
      | (cs, None) \<Rightarrow>
          (case plot_each (\<lambda>(ys, es, obs). ax_errorbar param_sweep ys es)
                  (zip (evs result) (zip (stds result) observables)) of
             (cs', e) \<Rightarrow> (cs @ cs', e)))"

text \<open>
  The primitives of the SDK return, for a circuit, \<open>n\<close> observables and a sweep of \<open>m\<close>
  parameter values, arrays of \<open>n\<close> rows of \<open>m\<close> entries each. \<open>ev\<close> and \<open>sd\<close> stand for the
  numbers the primitive computes.
\<close>

definition estimator_run :: "('o \<Rightarrow> real \<Rightarrow> real) \<Rightarrow> ('o \<Rightarrow> real \<Rightarrow> real) \<Rightarrow> 'o list \<Rightarrow> real list
    \<Rightarrow> estimator_result" where
  "estimator_run ev sd observables param_sweep =
     \<lparr>evs = map (\<lambda>obs. map (ev obs) param_sweep) observables,
      stds = map (\<lambda>obs. map (sd obs) param_sweep) observables\<rparr>"


section \<open>Packaging the results for submission\<close>

text \<open>
  The last cell of the notebook on phase estimation on hardware writes a zip archive.
  An archive is the list of its entries in the order written, each a file name with its
  content; the file system maps paths to archives. The bytes of a figure are produced by
  the plotting library from the figure and the options passed to \<^verbatim>\<open>savefig\<close>, the bytes of
  the metadata by \<^verbatim>\<open>json.dumps\<close> from the object and the indentation.
\<close>

datatype json = JString string | JNumber rat | JObject "(string \<times> json) list"

record fig_opts =
  format :: string
  bbox_inches :: string
  pad_inches :: rat

datatype 'fig content = Figure_Bytes 'fig fig_opts | Json_Bytes json nat

type_synonym 'fig zip_archive = "(string \<times> 'fig content) list"

text \<open>
  \<^verbatim>\<open>
  def fig_to_zip(fig, fn, zf):
      fig_opts = {"format": "pdf", "bbox_inches": "tight", "pad_inches": 0.01}
      buf = io.BytesIO()
      fig.savefig(buf, **fig_opts)
      zf.writestr(fn, buf.getvalue())
  \<close>
\<close>

definition fig_to_zip :: "'fig \<Rightarrow> string \<Rightarrow> 'fig zip_archive \<Rightarrow> 'fig zip_archive" where
  "fig_to_zip fig fn zf =
     (let opts = \<lparr>format = ''pdf'', bbox_inches = ''tight'', pad_inches = 1 / 100\<rparr>;
          buf = Figure_Bytes fig opts
      in zf @ [(fn, buf)])"

text \<open>
  \<^verbatim>\<open>
  def np_dict_to_dict(d):
      return {k: int(v) for k, v in d.items()}
  \<close>
\<close>

definition np_dict_to_dict :: "counts \<Rightarrow> json" where
  "np_dict_to_dict d = JObject (map (\<lambda>(k, v). (k, JNumber (of_nat v))) d)"

text \<open>
  The variables of earlier cells that the packaging cell reads. \<open>real_job_repr\<close> is
  \<^verbatim>\<open>real_job.__repr__()\<close>, \<open>hamiltonian_str\<close> is \<^verbatim>\<open>str(hamiltonian)\<close> and \<open>timestamp\<close> is the
  formatted time of the run. The student's name and identifier are strings.
\<close>

record 'fig notebook_vars =
  your_name :: string
  your_idm :: string
  timestamp :: string
  real_job_repr :: string
  hamiltonian_str :: string
  fake_backend_name :: string
  real_backend_name :: string
  sv_counts :: counts
  fake_counts :: counts
  real_counts :: counts
  target_phase :: rat
  correct_bitstring :: string
  sv_computed_phase :: rat
  sv_output_bitstring :: string
  fake_computed_phase :: rat
  fake_output_bitstring :: string
  real_computed_phase :: rat
  real_output_bitstring :: string
  sv_fig :: 'fig
  fake_fig :: 'fig
  real_fig :: 'fig
  circ_fig :: 'fig

text \<open>\<^verbatim>\<open>s.replace(" ", "_")\<close>\<close>

definition replace_spaces :: "string \<Rightarrow> string" where
  "replace_spaces s = map (\<lambda>c. if c = CHR '' '' then CHR ''_'' else c) s"

text \<open>
  \<^verbatim>\<open>
  job = real_job.__repr__()
  ham = str(hamiltonian)
  jobj = {
      "__timestamp": datetime.today().strftime("%d/%m/%Y at %H:%M %Ss"),
      "__jobj": job,
      "__ham": ham,
      "__name": your_name,
      "__idm": your_idm,
      "__fake_backend": fake_backend.name,
      "__real_backend": real_backend.name,
      "__sv_counts": np_dict_to_dict(sv_counts),
      "__fake_counts": np_dict_to_dict(fake_counts),
      "__real_counts": np_dict_to_dict(real_counts),
      "__target_phase": target_phase,
      "__correct_bitstring": correct_bitstring,
      "__sv_computed_phase": sv_computed_phase,
      "__sv_output_bitstring": sv_output_bitstring,
      "__fake_computed_phase": fake_computed_phase,
      "__fake_output_bitstring": fake_output_bitstring,
      "__real_computed_phase": real_computed_phase,
      "__real_output_bitstring": real_output_bitstring,
  }
  \<close>
\<close>

definition jobj :: "'fig notebook_vars \<Rightarrow> (string \<times> json) list" where
  "jobj v =
     [(''__timestamp'', JString (timestamp v)),
      (''__jobj'', JString (real_job_repr v)),
      (''__ham'', JString (hamiltonian_str v)),
      (''__name'', JString (your_name v)),
      (''__idm'', JString (your_idm v)),
      (''__fake_backend'', JString (fake_backend_name v)),
      (''__real_backend'', JString (real_backend_name v)),
      (''__sv_counts'', np_dict_to_dict (sv_counts v)),
      (''__fake_counts'', np_dict_to_dict (fake_counts v)),
      (''__real_counts'', np_dict_to_dict (real_counts v)),
      (''__target_phase'', JNumber (target_phase v)),
      (''__correct_bitstring'', JString (correct_bitstring v)),
      (''__sv_computed_phase'', JNumber (sv_computed_phase v)),
      (''__sv_output_bitstring'', JString (sv_output_bitstring v)),
      (''__fake_computed_phase'', JNumber (fake_computed_phase v)),
      (''__fake_output_bitstring'', JString (fake_output_bitstring v)),
      (''__real_computed_phase'', JNumber (real_computed_phase v)),
      (''__real_output_bitstring'', JString (real_output_bitstring v))]"

text \<open>
  The path of the archive is built by the statement
  \<^verbatim>\<open>
  zf_fpath = f"./{your_name.replace(" ","_")}_{your_idm}.zip"
  \<close>
  whose right-hand side is a formatted string literal that uses its own quote character
  inside a replacement field. From Python 3.12 on a replacement field may hold any
  expression, also one with the quote of the literal. Before, the literal ends at the
  next occurrence of its opening quote, and a replacement field that is still open there
  is a syntax error. The literal has no backslash, no doubled brace and no triple quote,
  so the scanner reads none.
\<close>

definition zf_fpath_literal :: string where
  \<open>zf_fpath_literal = ''f"./{your_name.replace(" ","_")}_{your_idm}.zip"''\<close>

text \<open>
  The nesting depth of replacement fields after a text, or \<open>None\<close> for a closing brace
  with no field open.
\<close>

fun field_depth :: "nat \<Rightarrow> string \<Rightarrow> nat option" where
  "field_depth d [] = Some d"
| "field_depth d (c # cs) =
     (if c = CHR ''{'' then field_depth (Suc d) cs
      else if c = CHR ''}'' then (case d of 0 \<Rightarrow> None | Suc d' \<Rightarrow> field_depth d' cs)
      else field_depth d cs)"

text \<open>
  Whether a formatted literal, given with its prefix and quotes, is accepted before
  Python 3.12: its text runs up to the next opening quote and closes every field.
\<close>

fun fstring_accepted_before_312 :: "string \<Rightarrow> bool" where
  "fstring_accepted_before_312 (p # q # cs) =
     (p = CHR ''f'' \<and> field_depth 0 (takeWhile (\<lambda>c. c \<noteq> q) cs) = Some 0)"
| "fstring_accepted_before_312 cs = False"

text \<open>A version of Python is its major, minor and micro number.\<close>

type_synonym py_version = "nat \<times> nat \<times> nat"

fun nested_quotes_allowed :: "py_version \<Rightarrow> bool" where
  "nested_quotes_allowed (major, minor, micro) = (3 < major \<or> (major = 3 \<and> 12 \<le> minor))"

definition cell_compiles :: "py_version \<Rightarrow> bool" where
  "cell_compiles version
     = (nested_quotes_allowed version \<or> fstring_accepted_before_312 zf_fpath_literal)"

text \<open>The value of the literal where it is accepted.\<close>

definition zf_fpath :: "'fig notebook_vars \<Rightarrow> string" where
  "zf_fpath v = ''./'' @ replace_spaces (your_name v) @ ''_'' @ your_idm v @ ''.zip''"

text \<open>
  The file system: the archives stored at paths, and which paths name a directory.
  \<^verbatim>\<open>os.path.dirname\<close> of a path is its text before the last slash.
\<close>

record 'fig file_system =
  files :: "string \<rightharpoonup> 'fig zip_archive"
  is_dir :: "string \<Rightarrow> bool"

definition dirname :: "string \<Rightarrow> string" where
  "dirname p = rev (tl (dropWhile (\<lambda>c. c \<noteq> CHR ''/'') (rev p)))"

text \<open>
  \<^verbatim>\<open>
  with zipfile.ZipFile(zf_fpath, mode="w") as zf:
      fig_to_zip(sv_fig, "stevector_results.pdf", zf)
      fig_to_zip(fake_fig, "fake_results.pdf", zf)
      fig_to_zip(real_fig, "real_results.pdf", zf)
      fig_to_zip(circ_fig, "circuit.pdf", zf)

      buf = io.BytesIO()
      data = json.dumps(jobj, indent=4, ensure_ascii=False).encode()
      buf.write(data)
      zf.writestr("specs.json", buf.getvalue())

  print(f"Created {zf_fpath}")
  \<close>
  A cell is compiled as a whole before any of its statements runs: where the literal is
  rejected the cell ends in a \<^verbatim>\<open>SyntaxError\<close> and the file system is as before. Opening
  with the mode \<^verbatim>\<open>w\<close> creates the file or empties an existing one; it raises
  \<^verbatim>\<open>FileNotFoundError\<close> when the directory of the path does not exist, as for a name or
  an identifier with a slash, and \<^verbatim>\<open>IsADirectoryError\<close> when the path names a directory.
  Other refusals of the operating system are not modelled, and saving a figure and
  encoding the record are taken to succeed. The cell returns the file system and the path
  it prints.
\<close>

definition packaging_cell :: "py_version \<Rightarrow> 'fig notebook_vars \<Rightarrow> 'fig file_system
    \<Rightarrow> 'fig file_system \<times> (error + string)" where
  "packaging_cell version v fs =
     (if \<not> cell_compiles version then (fs, Inl PySyntaxError)
      else if \<not> is_dir fs (dirname (zf_fpath v)) then (fs, Inl (PyFileNotFoundError (zf_fpath v)))
      else if is_dir fs (zf_fpath v) then (fs, Inl (PyIsADirectoryError (zf_fpath v)))
      else
       (let zf = [];
            zf = fig_to_zip (sv_fig v) ''stevector_results.pdf'' zf;
            zf = fig_to_zip (fake_fig v) ''fake_results.pdf'' zf;
            zf = fig_to_zip (real_fig v) ''real_results.pdf'' zf;
            zf = fig_to_zip (circ_fig v) ''circuit.pdf'' zf;
            data = Json_Bytes (JObject (jobj v)) 4;
            zf = zf @ [(''specs.json'', data)]
        in (fs\<lparr>files := (files fs)(zf_fpath v \<mapsto> zf)\<rparr>, Inr (zf_fpath v))))"

text \<open>The content is a figure saved in the format PDF.\<close>

fun is_pdf_figure :: "'fig content \<Rightarrow> bool" where
  "is_pdf_figure (Figure_Bytes fig opts) = (format opts = ''pdf'')"
| "is_pdf_figure (Json_Bytes j n) = False"

section \<open>Sums of floats that are exact\<close>


















section \<open>The phase is a dyadic rational below one\<close>























section \<open>The bitstring utilities at concrete inputs\<close>

text \<open>
  Claim C8. The round trip \<^verbatim>\<open>from_bitstring(n, to_bitstring(n, i)) = i\<close> for
  \<open>0 \<le> i < 2\<^sup>n\<close> does not hold of the code: for two qubits the index 0 is written 00 and
  read back as 4, and for three qubits the index 5 is written 101 and read back as 8.
\<close>

theorem from_bitstring_to_bitstring_values:
  "from_bitstring 2 (Str (to_bitstring 2 0)) = Inr 4
   \<and> from_bitstring 3 (Str (to_bitstring 3 5)) = Inr 8"
  by code_simp

text \<open>
  Claim C9. \<^verbatim>\<open>get_correct_bitstring\<close> does not always return \<open>r1\<close> characters: for one
  qubit and the target phase 7/8 the product 7/4 rounds to 2, which is written 10.
\<close>

theorem get_correct_bitstring_overlong:
  "get_correct_bitstring (7 / 8) 1 = ''10'' \<and> length (get_correct_bitstring (7 / 8) 1) = 2"
  by code_simp

section \<open>The phase-estimation circuit\<close>



lemma qpe_loop_more: "circuit.more (circ (qpe_loop targs ius st)) = circuit.more (circ st)"
proof (induction ius arbitrary: st)
  case Nil
  show ?case by simp
next
  case (Cons iu ius)
  obtain ind u where iu: "iu = (ind, u)" by (cases iu)
  show ?case
    unfolding iu qpe_loop.simps Let_def Cons.IH
    by (simp add: controlled_U_gate_def circuit_append_def)
qed




lemma random_unitary_iter_eq:
  "random_unitary_iter r1 r2 = map (\<lambda>m. Expm (Times_int (2 ^ m) (irham r2))) [0..<r1]"
  by (simp add: random_unitary_iter_def Let_def)




text \<open>
  Without a qubit in the first register the loop body never runs, and the return
  statement reads the unbound variable \<open>phase\<close>.
\<close>

lemma qpe_circuit_no_first_register:
  "(qpe_circuit 0 r2 :: error + ('s circuit \<times> eigenpair)) = Inl (PyUnboundLocalError ''phase'')"
  by (simp add: qpe_circuit_def random_unitary_iter_def Let_def)

section \<open>The Fourier-transform exercise as shipped\<close>

text \<open>
  Claim C2, as stated: \<^verbatim>\<open>build_qft_circuit(n_qubits)\<close> returns the textbook circuit, which
  applies a Hadamard to each qubit. The shipped function is the unsolved exercise: for one
  qubit its circuit holds no Hadamard on qubit 0.
\<close>

theorem build_qft_circuit_no_hadamard:
  "\<not> spec_hadamard_on_each_qubit (build_qft_circuit 1 :: unit circuit)"
  by (simp add: spec_hadamard_on_each_qubit_def build_qft_circuit_def QuantumCircuit_n_def
      QuantumCircuit_def num_qubits_def QuantumRegister_def)

text \<open>
  Claim C2, amended. For every \<open>n_qubits\<close>, \<^verbatim>\<open>build_qft_circuit(n_qubits)\<close> as shipped returns
  a circuit on \<open>n_qubits\<close> qubits without any gate: no Hadamard, no controlled-phase gate
  and no swap. The circuit that \<^verbatim>\<open>get_qft_coefficients\<close> simulates therefore consists of
  the state preparation followed by an empty sub-circuit.
\<close>

theorem build_qft_circuit_is_stub:
  "num_qubits (build_qft_circuit n) = n \<and> data (build_qft_circuit n) = []
   \<and> data (get_qft_coefficients_circuit n s)
       = [(Prepare_State s, [0..<n]), (Circuit_gate [], [0..<n])]"
  by (simp add: build_qft_circuit_def QuantumCircuit_n_def QuantumCircuit_def num_qubits_def
      QuantumRegister_def get_qft_coefficients_circuit_def circuit_append_def
      register_qubits_def)


section \<open>Normalisation written in the notebooks\<close>

lemma sum_list_divide_const:
  "sum_list (map (\<lambda>x. f x / c) xs) = sum_list (map f xs) / (c::real)"
  by (induction xs) (simp_all add: add_divide_distrib)

lemma sum_list_squares_nonneg: "0 \<le> sum_list (map (\<lambda>x. (cmod x)\<^sup>2) v)"
  by (induction v) simp_all

lemma linalg_norm_div_norm:
  assumes "linalg_norm v \<noteq> 0"
  shows "linalg_norm (initial_state_div_norm v) = 1"
proof -
  define S where "S = sum_list (map (\<lambda>x. (cmod x)\<^sup>2) v)"
  define n where "n = linalg_norm v"
  have n: "n = sqrt S" by (simp add: n_def S_def linalg_norm_def)
  have S0: "0 \<le> S" unfolding S_def by (rule sum_list_squares_nonneg)
  have n2: "n\<^sup>2 = S" using S0 by (simp add: n)
  from assms have "n \<noteq> 0" by (simp add: n_def)
  then have S: "S \<noteq> 0" using n2 by auto
  have "sum_list (map (\<lambda>x. (cmod x)\<^sup>2) (initial_state_div_norm v))
      = sum_list (map (\<lambda>x. (cmod x)\<^sup>2 / n\<^sup>2) v)"
    by (simp add: initial_state_div_norm_def n_def [symmetric] o_def norm_divide power_divide)
  also have "\<dots> = S / n\<^sup>2"
    unfolding S_def by (rule sum_list_divide_const)
  also have "\<dots> = 1" using S n2 by simp
  finally show ?thesis by (simp add: linalg_norm_def)
qed

lemma sqrt_25: "sqrt 25 = 5"
proof -
  have "sqrt (5\<^sup>2) = \<bar>5\<bar>" by (rule real_sqrt_abs)
  then show ?thesis by simp
qed

lemma linalg_norm_3_4: "linalg_norm [3, 4] = 5"
  by (simp add: linalg_norm_def sqrt_25)

text \<open>
  Claim C7, as stated: no operation written in the notebooks rescales a state vector to
  unit norm. The check cell of the Fourier-transform notebook does: a vector of norm 5
  leaves it with norm 1.
\<close>

theorem initial_state_is_rescaled:
  "linalg_norm [3, 4] = 5 \<and> initial_state_div_norm [3, 4] = [3 / 5, 4 / 5]
   \<and> linalg_norm (initial_state_div_norm [3, 4]) = 1"
proof -
  have "linalg_norm [3, 4] \<noteq> 0" by (simp add: linalg_norm_3_4)
  from linalg_norm_div_norm [OF this] show ?thesis
    by (simp add: linalg_norm_3_4 initial_state_div_norm_def)
qed

text \<open>
  Claim C7, amended. The notebooks' own code rescales a state vector to unit norm in the
  check cell of the Fourier-transform notebook, which divides \<open>initial_state\<close> by its
  Euclidean norm (of a vector with a norm other than zero) before the SDK sees it; it
  never normalises a unitary matrix: \<^verbatim>\<open>random_unitary_iter\<close> yields each \<open>expm(2\<^sup>m * iH)\<close>
  as the library returned it.
\<close>

theorem normalization_in_notebooks:
  assumes "linalg_norm v \<noteq> 0"
  shows "linalg_norm (initial_state_div_norm v) = 1
    \<and> length (initial_state_div_norm v) = length v
    \<and> random_unitary_iter r1 r2 = map (\<lambda>m. Expm (Times_int (2 ^ m) (irham r2))) [0..<r1]"
  using linalg_norm_div_norm [OF assms]
  by (simp add: random_unitary_iter_eq initial_state_div_norm_def)

text \<open>The theorem at the vector \<open>(3, 4)\<close> and at two unitaries on one qubit.\<close>

theorem normalization_in_notebooks_witness:
  "linalg_norm [3, 4] \<noteq> 0
   \<and> linalg_norm (initial_state_div_norm [3, 4]) = 1
   \<and> random_unitary_iter 2 1 = [Expm (Times_int 1 (irham 1)), Expm (Times_int 2 (irham 1))]"
proof -
  have h: "linalg_norm [3, 4] \<noteq> 0" by (simp add: linalg_norm_3_4)
  have u: "[0..<2] = [0, Suc 0]" by (simp add: upt_rec)
  from normalization_in_notebooks [OF h, of 2 1] h show ?thesis
    by (simp add: u)
qed


section \<open>Exceptions and job requests of the hardware cells\<close>

text \<open>
  Claim C3, as stated: no notebook code raises an exception of its own. The hardware cell
  of the notebook that runs phase estimation on hardware does, for a value of \<open>which\<close>
  that is neither \<open>run\<close> nor \<open>load\<close>.
\<close>

theorem qpe_hardware_dispatch_raises:
  "snd (qpe_hardware_dispatch ''neither'' ''crx14dshazpg0084b9xg'')
     = Inl (NotebookValueError ''Expected 'run' or 'load', got: neither'')
   \<and> raised_by_notebook (snd (qpe_hardware_dispatch ''neither'' ''crx14dshazpg0084b9xg''))"
  by (simp add: qpe_hardware_dispatch_def qpe_hardware_dispatch_with_def)

lemma qpe_circuit_not_raised: "\<not> raised_by_notebook (qpe_circuit r1 r2)"
  by (simp add: qpe_circuit_def Let_def split: option.split)

lemma phase_from_counts_not_raised: "\<not> raised_by_notebook (phase_from_counts ph cs)"
  by (auto simp: phase_from_counts_def most_frequent_def bitstring_phase_def Let_def
      split: sum.splits option.splits list.splits)

lemma from_bitstring_not_raised: "\<not> raised_by_notebook (from_bitstring n b)"
  by (cases b) (simp_all split: option.split)

text \<open>
  Claim C3, amended. The repository's own code raises an exception of its own in one place
  only: the hardware cell of the notebook that runs phase estimation on hardware raises a
  \<^verbatim>\<open>ValueError\<close> naming the value exactly when \<open>which\<close> is neither \<open>run\<close> nor \<open>load\<close>,
  and raises nothing of its own otherwise. No other error handling is implemented: the
  other hardware cell, \<^verbatim>\<open>qpe_circuit\<close>, \<^verbatim>\<open>phase_from_counts\<close> and \<^verbatim>\<open>from_bitstring\<close> either
  complete or end in an exception of the SDK or of the Python runtime.
\<close>

theorem notebook_raise_only_in_dispatch:
  "raised_by_notebook (snd (qpe_hardware_dispatch which job_key))
     = (which \<noteq> ''run'' \<and> which \<noteq> ''load'')
   \<and> snd (qpe_hardware_dispatch which job_key)
     = (if which = ''run'' then Inr Ellipsis
        else if which = ''load'' then Inr (Loaded_Job job_key)
        else Inl (NotebookValueError (''Expected 'run' or 'load', got: '' @ which)))
   \<and> \<not> raised_by_notebook (snd (connect_hardware_dispatch which job_key))
   \<and> \<not> raised_by_notebook (qpe_circuit r1 r2)
   \<and> \<not> raised_by_notebook (phase_from_counts plot_histogram cs)
   \<and> \<not> raised_by_notebook (from_bitstring n b)"
  by (simp add: qpe_hardware_dispatch_def qpe_hardware_dispatch_with_def
      connect_hardware_dispatch_def backend_estimate_observables_def qpe_circuit_not_raised
      phase_from_counts_not_raised from_bitstring_not_raised)



section \<open>Array lengths along a sweep\<close>



















lemma same_shape_estimator_run: "same_shape (estimator_run ev sd observables sweep)"
  by (simp add: same_shape_def estimator_run_def o_def)



text \<open>
  A result of three columns, as a job loaded by its identifier may hold, plotted against
  the five points of the sparse sweep ends in the plotting library's exception at the
  first error bar; nothing is drawn.
\<close>

lemma plot_estimator_result_mismatch:
  "plot_estimator_result \<lparr>evs = [[1, 0, 1], [0, 1, 0]], stds = [[0, 0, 0], [0, 0, 0]]\<rparr>
     [- 2, - 1, 0, 1, 2] [''XXX'', ''ZZZ''] None None = ([], Some PlotValueError)"
  by (simp add: plot_estimator_result_def ax_errorbar_def)



section \<open>The submission archive\<close>

lemma jobj_keys:
  "map fst (jobj v)
     = [''__timestamp'', ''__jobj'', ''__ham'', ''__name'', ''__idm'', ''__fake_backend'',
        ''__real_backend'', ''__sv_counts'', ''__fake_counts'', ''__real_counts'',
        ''__target_phase'', ''__correct_bitstring'', ''__sv_computed_phase'',
        ''__sv_output_bitstring'', ''__fake_computed_phase'', ''__fake_output_bitstring'',
        ''__real_computed_phase'', ''__real_output_bitstring'']"
  by (simp add: jobj_def)

lemma literal_rejected_before_312: "\<not> fstring_accepted_before_312 zf_fpath_literal"
  by (simp add: zf_fpath_literal_def)

lemma cell_compiles_iff: "cell_compiles version = nested_quotes_allowed version"
  by (simp add: cell_compiles_def literal_rejected_before_312)

text \<open>
  Every Python before 3.12 rejects the cell, and nothing is written.
\<close>

lemma packaging_cell_before_312:
  "\<not> nested_quotes_allowed version \<Longrightarrow> packaging_cell version v fs = (fs, Inl PySyntaxError)"
  by (simp add: packaging_cell_def cell_compiles_iff)

text \<open>
  From Python 3.12 on the cell writes the archive when the directory of the path exists
  and the path names no directory: the file system changes at one path only,
  \<^verbatim>\<open>./<name>_<idm>.zip\<close> with the spaces of the student's name replaced by underscores. The
  archive holds exactly five entries with distinct names: four figures saved as PDF (the
  statevector results, the fake-backend results, the real-hardware results and the
  circuit drawing, in this order) and the JSON record \<open>specs.json\<close>, whose keys are the
  timestamp, the job, the Hamiltonian, the student's name and identifier, the two backend
  names, the three counts dictionaries, the target phase, the correct bitstring and the
  three computed phases with their bitstrings.
\<close>

lemma packaging_cell_from_312:
  assumes "nested_quotes_allowed version"
    and "is_dir fs (dirname (zf_fpath v))"
    and "\<not> is_dir fs (zf_fpath v)"
  shows "\<exists>zf. packaging_cell version v fs
         = (fs\<lparr>files := (files fs)(zf_fpath v \<mapsto> zf)\<rparr>, Inr (zf_fpath v))
     \<and> zf_fpath v = ''./'' @ replace_spaces (your_name v) @ ''_'' @ your_idm v @ ''.zip''
     \<and> length zf = 5
     \<and> map fst zf = [''stevector_results.pdf'', ''fake_results.pdf'', ''real_results.pdf'',
                      ''circuit.pdf'', ''specs.json'']
     \<and> distinct (map fst zf)
     \<and> list_all is_pdf_figure (map snd (take 4 zf))
     \<and> map snd zf
         = map (\<lambda>fig. Figure_Bytes fig \<lparr>format = ''pdf'', bbox_inches = ''tight'',
                                         pad_inches = 1 / 100\<rparr>)
             [sv_fig v, fake_fig v, real_fig v, circ_fig v]
           @ [Json_Bytes (JObject (jobj v)) 4]"
proof -
  define opts where "opts = \<lparr>format = ''pdf'', bbox_inches = ''tight'', pad_inches = 1 / 100\<rparr>"
  define zf where "zf = [(''stevector_results.pdf'', Figure_Bytes (sv_fig v) opts),
      (''fake_results.pdf'', Figure_Bytes (fake_fig v) opts),
      (''real_results.pdf'', Figure_Bytes (real_fig v) opts),
      (''circuit.pdf'', Figure_Bytes (circ_fig v) opts),
      (''specs.json'', Json_Bytes (JObject (jobj v)) 4)]"
  have c: "packaging_cell version v fs
      = (fs\<lparr>files := (files fs)(zf_fpath v \<mapsto> zf)\<rparr>, Inr (zf_fpath v))"
    using assms
    by (simp add: packaging_cell_def cell_compiles_iff fig_to_zip_def Let_def zf_def opts_def)
  have p: "zf_fpath v = ''./'' @ replace_spaces (your_name v) @ ''_'' @ your_idm v @ ''.zip''"
    by (simp only: zf_fpath_def)
  have l: "length zf = 5" by (simp add: zf_def)
  have n: "map fst zf = [''stevector_results.pdf'', ''fake_results.pdf'', ''real_results.pdf'',
                      ''circuit.pdf'', ''specs.json'']"
    by (simp add: zf_def)
  have d: "distinct (map fst zf)" unfolding n by simp
  have f: "list_all is_pdf_figure (map snd (take 4 zf))"
    by (simp add: zf_def opts_def)
  have s: "map snd zf
         = map (\<lambda>fig. Figure_Bytes fig \<lparr>format = ''pdf'', bbox_inches = ''tight'',
                                         pad_inches = 1 / 100\<rparr>)
             [sv_fig v, fake_fig v, real_fig v, circ_fig v]
           @ [Json_Bytes (JObject (jobj v)) 4]"
    by (simp add: zf_def opts_def)
  show ?thesis
    by (intro exI [of _ zf] conjI) (rule c p l n d f s)+
qed

text \<open>
  A name with a slash puts the path into a directory named after the student, which the
  cell does not create.
\<close>

lemma packaging_cell_name_with_slash:
  "your_name v = ''Ada/Lovelace'' \<Longrightarrow> your_idm v = ''1815'' \<Longrightarrow> is_dir fs = (\<lambda>p. p = ''.'')
   \<Longrightarrow> packaging_cell (3, 12, 0) v fs = (fs, Inl (PyFileNotFoundError ''./Ada/Lovelace_1815.zip''))"
  by (simp add: packaging_cell_def cell_compiles_iff zf_fpath_def replace_spaces_def dirname_def)

text \<open>
  Claim C5, on the kernel that the notebook records, Python 3.10.11: the packaging cell
  does not compile. It ends in a \<^verbatim>\<open>SyntaxError\<close> before any of its statements runs, for
  every name, identifier and result, and the file system is unchanged: no archive is
  produced.
\<close>

theorem packaging_cell_syntax_error:
  "packaging_cell (3, 10, 11) v fs = (fs, Inl PySyntaxError)"
  by (simp add: packaging_cell_def cell_compiles_def zf_fpath_literal_def)


end
